theory Spec2Isabelle
  imports Complex_Main "HOL-Library.Char_ord" "HOL-Library.List_Lexorder"
    "HOL-Library.Option_ord" "HOL-Library.Multiset"
begin

section \<open>Python values, exceptions and the coercions the services apply\<close>

text \<open>
  Every method of the repository runs against one SQLite file. A method is modelled as a
  function from the store to a pair: what the call returned or raised, and the store
  afterwards. A raised exception does not undo the statements already committed, so the
  store is returned in both cases.

  Strings are byte strings (the UTF-8 encoding of the Python \<open>str\<close>), so
  \<open>s.encode('utf-8')\<close> is the identity where it returns, and SQLite's BINARY collation is the
  lexicographic order of \<open>char list\<close>. INTEGER columns hold mathematical integers and
  the average of a column is the exact rational mean; the 64-bit range of the store and
  the rounding of IEEE doubles are outside the model.
\<close>

datatype exn =
    KeyError string
  | ValueError
  | TypeError
  | IntegrityError
  | FileNotFoundError
  | ParserError

text \<open>
  The values a caller or a parsed CSV cell can hand to a service: an integer, a boolean,
  a text, or the missing-value marker of a data frame (the float NaN).
\<close>

datatype pyval = PInt int | PBool bool | PStr string | PNaN


definition is_space :: "char \<Rightarrow> bool" where
  "is_space c = (let n = (of_char c :: nat) in (9 \<le> n \<and> n \<le> 13) \<or> (28 \<le> n \<and> n \<le> 32))"

definition is_digit :: "char \<Rightarrow> bool" where
  "is_digit c = (let n = (of_char c :: nat) in 48 \<le> n \<and> n \<le> 57)"

definition digit_val :: "char \<Rightarrow> nat" where
  "digit_val c = of_char c - 48"

definition strip :: "string \<Rightarrow> string" where
  "strip s = rev (dropWhile is_space (rev (dropWhile is_space s)))"

text \<open>
  The digits of a decimal literal as \<open>int(str)\<close> reads them: an underscore is allowed
  between two digits only.
\<close>

fun int_digits :: "string \<Rightarrow> nat \<Rightarrow> nat option" where
  "int_digits [] acc = Some acc"
| "int_digits (c # cs) acc =
     (if c = CHR ''_'' then
        (case cs of [] \<Rightarrow> None | d # ds \<Rightarrow> if is_digit d then int_digits cs acc else None)
      else if is_digit c then int_digits cs (10 * acc + digit_val c)
      else None)"

definition int_literal :: "string \<Rightarrow> nat option" where
  "int_literal s =
     (case s of [] \<Rightarrow> None | c # cs \<Rightarrow> if is_digit c then int_digits s 0 else None)"

definition parse_int :: "string \<Rightarrow> int option" where
  "parse_int s =
     (case strip s of
        [] \<Rightarrow> None
      | c # cs \<Rightarrow>
          if c = CHR ''-'' then map_option (\<lambda>n. - int n) (int_literal cs)
          else if c = CHR ''+'' then map_option int (int_literal cs)
          else map_option int (int_literal (c # cs)))"

text \<open>
  Python's \<open>int(v)\<close>: the identity on an int, 0 or 1 on a bool, the decimal reading of
  a text, ValueError on a text that is no literal and on NaN.
\<close>

fun py_int :: "pyval \<Rightarrow> exn + int" where
  "py_int (PInt i) = Inr i"
| "py_int (PBool b) = Inr (if b then 1 else 0)"
| "py_int (PStr s) = (case parse_int s of None \<Rightarrow> Inl ValueError | Some i \<Rightarrow> Inr i)"
| "py_int PNaN = Inl ValueError"




section \<open>The store\<close>

text \<open>
  The stored credential as \<open>row["password_hash"]\<close> can come back: raw bytes, a
  memory view over bytes, a text, or NULL.
\<close>

datatype cred = CBytes string | CMemoryView string | CStr string | CNull

record user =
  u_id :: int
  u_username :: string
  u_password_hash :: cred
  u_role :: string

record incident =
  i_id :: int
  i_incident_id :: int
  i_timestamp :: "string option"
  i_severity :: "string option"
  i_category :: "string option"
  i_status :: "string option"
  i_description :: "string option"

record dataset =
  d_id :: int
  d_dataset_id :: int
  d_name :: "string option"
  d_rows :: int
  d_columns :: int
  d_uploaded_by :: "string option"
  d_upload_date :: "string option"

record ticket =
  t_id :: int
  t_ticket_id :: int
  t_priority :: "string option"
  t_description :: "string option"
  t_status :: "string option"
  t_assigned_to :: "string option"
  t_created_at :: "string option"
  t_resolution_time_hours :: int

text \<open>
  The four tables in rowid order, each with the largest rowid it ever issued (what
  AUTOINCREMENT keeps in \<open>sqlite_sequence\<close>). The constructors of the services run
  CREATE TABLE IF NOT EXISTS, so every method finds its table.
\<close>

record db =
  users :: "user list"
  users_seq :: int
  cyber_incidents :: "incident list"
  cyber_incidents_seq :: int
  datasets_metadata :: "dataset list"
  datasets_metadata_seq :: int
  it_tickets :: "ticket list"
  it_tickets_seq :: int

definition next_rowid :: "int \<Rightarrow> int list \<Rightarrow> int" where
  "next_rowid seq ids = max seq (fold max ids 0) + 1"

text \<open>
  ORDER BY key DESC: rows with the larger key first, rows with equal keys in rowid order
  (SQLite leaves the order of ties open; the model fixes one).
\<close>

fun insert_desc :: "('a \<Rightarrow> 'k::linorder) \<Rightarrow> 'a \<Rightarrow> 'a list \<Rightarrow> 'a list" where
  "insert_desc k x [] = [x]"
| "insert_desc k x (y # ys) = (if k y \<le> k x then x # y # ys else y # insert_desc k x ys)"

definition order_by_desc :: "('a \<Rightarrow> 'k::linorder) \<Rightarrow> 'a list \<Rightarrow> 'a list" where
  "order_by_desc k xs = foldr (insert_desc k) xs []"

text \<open>GROUP BY key: one group per distinct key, in ascending key order.\<close>

definition group_keys :: "('a \<Rightarrow> 'k::linorder) \<Rightarrow> 'a list \<Rightarrow> 'k list" where
  "group_keys k xs = sort (remdups (map k xs))"

definition count_where :: "('a \<Rightarrow> bool) \<Rightarrow> 'a list \<Rightarrow> int" where
  "count_where p xs = int (length (filter p xs))"

text \<open>AVG and SUM of an INTEGER column: NULL over no rows.\<close>

definition sql_avg :: "int list \<Rightarrow> rat option" where
  "sql_avg xs = (if xs = [] then None else Some (of_int (sum_list xs) / of_nat (length xs)))"

definition sql_sum :: "int list \<Rightarrow> int option" where
  "sql_sum xs = (if xs = [] then None else Some (sum_list xs))"

section \<open>DatabaseManager\<close>

text \<open>
  A statement is the SQL text with its parameters bound, given by what running it on the
  cursor does: a result or an exception, and the store afterwards. A statement that fails
  leaves the store as it was.
\<close>

type_synonym 'a statement = "db \<Rightarrow> (exn + 'a) \<times> db"

text \<open>\<open>execute\<close>: run the statement on the cursor, commit, return the cursor.\<close>

definition execute :: "'a statement \<Rightarrow> db \<Rightarrow> (exn + unit) \<times> db" where
  "execute query db =
     (case query db of
        (Inl e, db') \<Rightarrow> (Inl e, db')
      | (Inr r, db') \<Rightarrow> (Inr (), db'))"

text \<open>\<open>fetchall\<close>: run the statement on the cursor and return all its rows.\<close>

definition fetchall :: "'a list statement \<Rightarrow> db \<Rightarrow> (exn + 'a list) \<times> db" where
  "fetchall query db =
     (case query db of
        (Inl e, db') \<Rightarrow> (Inl e, db')
      | (Inr rows, db') \<Rightarrow> (Inr rows, db'))"

text \<open>\<open>fetchone\<close>: run the statement and return its first row, None when it has none.\<close>

definition fetchone :: "'a list statement \<Rightarrow> db \<Rightarrow> (exn + 'a option) \<times> db" where
  "fetchone query db =
     (case query db of
        (Inl e, db') \<Rightarrow> (Inl e, db')
      | (Inr rows, db') \<Rightarrow> (Inr (case rows of [] \<Rightarrow> None | r # rs \<Rightarrow> Some r), db'))"

section \<open>AuthManager\<close>

text \<open>
  INSERT INTO users (username, password_hash, role) VALUES (?,?,?): the username column
  is UNIQUE, so a username already stored makes the statement fail.
\<close>

definition INSERT_INTO_users :: "string \<Rightarrow> cred \<Rightarrow> string \<Rightarrow> unit statement" where
  "INSERT_INTO_users username hashed role db =
     (if username \<in> set (map u_username (users db)) then (Inl IntegrityError, db)
      else
        let rowid = next_rowid (users_seq db) (map u_id (users db))
        in (Inr (),
            db\<lparr>users := users db @
                  [\<lparr>u_id = rowid, u_username = username, u_password_hash = hashed,
                    u_role = role\<rparr>],
               users_seq := rowid\<rparr>))"

text \<open>SELECT * FROM users WHERE username = ?\<close>

definition SELECT_users_WHERE_username :: "string \<Rightarrow> user list statement" where
  "SELECT_users_WHERE_username username db =
     (Inr (filter (\<lambda>r. u_username r = username) (users db)), db)"

text \<open>
  \<open>register\<close>. The bcrypt functions are parameters: \<open>salt\<close> is what
  \<open>bcrypt.gensalt()\<close> drew for this call, and \<open>hashpw password salt\<close> is
  \<open>bcrypt.hashpw(password.encode('utf-8'), salt)\<close>, the hash or the exception that the
  encoding or bcrypt raised. The hash is computed before the \<open>try\<close> block, so an
  exception of the hashing leaves \<open>register\<close> as it is; only the INSERT is guarded.
\<close>

definition register ::
  "(string \<Rightarrow> string \<Rightarrow> exn + string) \<Rightarrow> string \<Rightarrow> string \<Rightarrow> string \<Rightarrow> string \<Rightarrow> db
     \<Rightarrow> (exn + bool) \<times> db" where
  "register hashpw salt username password role db =
     (if username = [] \<or> password = [] then (Inr False, db)
      else
        (case hashpw password salt of
           Inl e \<Rightarrow> (Inl e, db)
         | Inr hashed \<Rightarrow>
             (case execute (INSERT_INTO_users username (CBytes hashed) role) db of
                (Inr u, db') \<Rightarrow> (Inr True, db')
              | (Inl e, db') \<Rightarrow> (Inr False, db'))))"

text \<open>\<open>register\<close> called without a role: the parameter's default.\<close>

definition register_default ::
  "(string \<Rightarrow> string \<Rightarrow> exn + string) \<Rightarrow> string \<Rightarrow> string \<Rightarrow> string \<Rightarrow> db \<Rightarrow> (exn + bool) \<times> db" where
  "register_default hashpw salt username password db =
     register hashpw salt username password ''user'' db"

text \<open>
  The body of the \<open>try\<close> block of \<open>login\<close>: the stored credential is brought to bytes
  and handed to \<open>bcrypt.checkpw\<close> (the parameter \<open>checkpw\<close>, which may raise);
  \<open>checkpw\<close> on None raises TypeError.
\<close>

definition verify :: "(string \<Rightarrow> string \<Rightarrow> exn + bool) \<Rightarrow> string \<Rightarrow> cred \<Rightarrow> exn + bool" where
  "verify checkpw password pwd_hash =
     (case pwd_hash of
        CMemoryView b \<Rightarrow> checkpw password b
      | CStr s \<Rightarrow> checkpw password s
      | CBytes b \<Rightarrow> checkpw password b
      | CNull \<Rightarrow> Inl TypeError)"

text \<open>\<open>login\<close>: the result is the dictionary the source builds, or None.\<close>

definition login ::
  "(string \<Rightarrow> string \<Rightarrow> exn + bool) \<Rightarrow> string \<Rightarrow> string \<Rightarrow> db
     \<Rightarrow> (exn + (string \<times> pyval) list option) \<times> db" where
  "login checkpw username password db =
     (if username = [] \<or> password = [] then (Inr None, db)
      else
        (case fetchone (SELECT_users_WHERE_username username) db of
           (Inl e, db') \<Rightarrow> (Inl e, db')
         | (Inr None, db') \<Rightarrow> (Inr None, db')
         | (Inr (Some row), db') \<Rightarrow>
             (case verify checkpw password (u_password_hash row) of
                Inr True \<Rightarrow>
                  (Inr (Some [(''id'', PInt (u_id row)),
                              (''username'', PStr (u_username row)),
                              (''role'', PStr (u_role row))]), db')
              | Inr False \<Rightarrow> (Inr None, db')
              | Inl e \<Rightarrow> (Inr None, db'))))"

section \<open>Data frames\<close>



section \<open>SecurityService\<close>

text \<open>INSERT INTO cyber_incidents (incident_id, timestamp, severity, category, status, description)\<close>

definition INSERT_INTO_cyber_incidents ::
  "int \<Rightarrow> string option \<Rightarrow> string option \<Rightarrow> string option \<Rightarrow> string option \<Rightarrow> string option
     \<Rightarrow> unit statement" where
  "INSERT_INTO_cyber_incidents incident_id timestamp severity category status description db =
     (let rowid = next_rowid (cyber_incidents_seq db) (map i_id (cyber_incidents db))
      in (Inr (),
          db\<lparr>cyber_incidents := cyber_incidents db @
                [\<lparr>i_id = rowid, i_incident_id = incident_id, i_timestamp = timestamp,
                  i_severity = severity, i_category = category, i_status = status,
                  i_description = description\<rparr>],
             cyber_incidents_seq := rowid\<rparr>))"

text \<open>UPDATE cyber_incidents SET incident_id=?, ..., description=? WHERE id=?\<close>

definition UPDATE_cyber_incidents ::
  "int \<Rightarrow> string option \<Rightarrow> string option \<Rightarrow> string option \<Rightarrow> string option \<Rightarrow> string option
     \<Rightarrow> int \<Rightarrow> unit statement" where
  "UPDATE_cyber_incidents incident_id timestamp severity category status description rowid db =
     (Inr (),
      db\<lparr>cyber_incidents :=
           map (\<lambda>r. if i_id r = rowid
                     then r\<lparr>i_incident_id := incident_id, i_timestamp := timestamp,
                            i_severity := severity, i_category := category,
                            i_status := status, i_description := description\<rparr>
                     else r)
               (cyber_incidents db)\<rparr>)"

text \<open>DELETE FROM cyber_incidents WHERE id=?\<close>

definition DELETE_FROM_cyber_incidents :: "int \<Rightarrow> unit statement" where
  "DELETE_FROM_cyber_incidents rowid db =
     (Inr (), db\<lparr>cyber_incidents := filter (\<lambda>r. i_id r \<noteq> rowid) (cyber_incidents db)\<rparr>)"

text \<open>SELECT * FROM cyber_incidents ORDER BY timestamp DESC\<close>

definition SELECT_cyber_incidents_ORDER_BY_timestamp_DESC :: "incident list statement" where
  "SELECT_cyber_incidents_ORDER_BY_timestamp_DESC db =
     (Inr (order_by_desc i_timestamp (cyber_incidents db)), db)"

text \<open>SELECT COUNT(*) as total FROM cyber_incidents: one row.\<close>

definition SELECT_COUNT_cyber_incidents :: "int list statement" where
  "SELECT_COUNT_cyber_incidents db = (Inr [count_where (\<lambda>r. True) (cyber_incidents db)], db)"

text \<open>SELECT COUNT(*) as open_count FROM cyber_incidents WHERE status IN ('Open', 'In Progress')\<close>

definition SELECT_COUNT_cyber_incidents_WHERE_status_IN :: "int list statement" where
  "SELECT_COUNT_cyber_incidents_WHERE_status_IN db =
     (Inr [count_where (\<lambda>r. i_status r = Some ''Open'' \<or> i_status r = Some ''In Progress'')
             (cyber_incidents db)], db)"

text \<open>SELECT col, COUNT(*) as cnt FROM cyber_incidents GROUP BY col\<close>

definition SELECT_COUNT_cyber_incidents_GROUP_BY ::
  "(incident \<Rightarrow> string option) \<Rightarrow> (string option \<times> int) list statement" where
  "SELECT_COUNT_cyber_incidents_GROUP_BY col db =
     (Inr (map (\<lambda>k. (k, count_where (\<lambda>r. col r = k) (cyber_incidents db)))
             (group_keys col (cyber_incidents db))), db)"




definition create_incident ::
  "pyval \<Rightarrow> string \<Rightarrow> string \<Rightarrow> string \<Rightarrow> string \<Rightarrow> string \<Rightarrow> db \<Rightarrow> (exn + unit) \<times> db" where
  "create_incident incident_id timestamp severity category status description db =
     (case py_int incident_id of
        Inl e \<Rightarrow> (Inl e, db)
      | Inr n \<Rightarrow>
          execute (INSERT_INTO_cyber_incidents n (Some timestamp) (Some severity)
                     (Some category) (Some status) (Some description)) db)"



definition SecurityService_all :: "db \<Rightarrow> (exn + incident list) \<times> db" where
  "SecurityService_all db = fetchall SELECT_cyber_incidents_ORDER_BY_timestamp_DESC db"

text \<open>\<open>result["total"] if result else 0\<close>\<close>

definition SecurityService_total_count :: "db \<Rightarrow> (exn + int) \<times> db" where
  "SecurityService_total_count db =
     (case fetchone SELECT_COUNT_cyber_incidents db of
        (Inl e, db') \<Rightarrow> (Inl e, db')
      | (Inr None, db') \<Rightarrow> (Inr 0, db')
      | (Inr (Some n), db') \<Rightarrow> (Inr n, db'))"

definition SecurityService_open_count :: "db \<Rightarrow> (exn + int) \<times> db" where
  "SecurityService_open_count db =
     (case fetchone SELECT_COUNT_cyber_incidents_WHERE_status_IN db of
        (Inl e, db') \<Rightarrow> (Inl e, db')
      | (Inr None, db') \<Rightarrow> (Inr 0, db')
      | (Inr (Some n), db') \<Rightarrow> (Inr n, db'))"

definition category_counts :: "db \<Rightarrow> (exn + (string option \<times> int) list) \<times> db" where
  "category_counts db = fetchall (SELECT_COUNT_cyber_incidents_GROUP_BY i_category) db"

definition severity_counts :: "db \<Rightarrow> (exn + (string option \<times> int) list) \<times> db" where
  "severity_counts db = fetchall (SELECT_COUNT_cyber_incidents_GROUP_BY i_severity) db"

definition SecurityService_status_counts :: "db \<Rightarrow> (exn + (string option \<times> int) list) \<times> db" where
  "SecurityService_status_counts db = fetchall (SELECT_COUNT_cyber_incidents_GROUP_BY i_status) db"

section \<open>DatasetService\<close>

text \<open>INSERT INTO datasets_metadata (dataset_id, name, rows, columns, uploaded_by, upload_date)\<close>

definition INSERT_INTO_datasets_metadata ::
  "int \<Rightarrow> string option \<Rightarrow> int \<Rightarrow> int \<Rightarrow> string option \<Rightarrow> string option \<Rightarrow> unit statement" where
  "INSERT_INTO_datasets_metadata dataset_id name nrows ncolumns uploaded_by upload_date db =
     (let rowid = next_rowid (datasets_metadata_seq db) (map d_id (datasets_metadata db))
      in (Inr (),
          db\<lparr>datasets_metadata := datasets_metadata db @
                [\<lparr>d_id = rowid, d_dataset_id = dataset_id, d_name = name, d_rows = nrows,
                  d_columns = ncolumns, d_uploaded_by = uploaded_by,
                  d_upload_date = upload_date\<rparr>],
             datasets_metadata_seq := rowid\<rparr>))"

text \<open>UPDATE datasets_metadata SET dataset_id=?, ..., upload_date=? WHERE id=?\<close>

definition UPDATE_datasets_metadata ::
  "int \<Rightarrow> string option \<Rightarrow> int \<Rightarrow> int \<Rightarrow> string option \<Rightarrow> string option \<Rightarrow> int
     \<Rightarrow> unit statement" where
  "UPDATE_datasets_metadata dataset_id name nrows ncolumns uploaded_by upload_date rowid db =
     (Inr (),
      db\<lparr>datasets_metadata :=
           map (\<lambda>r. if d_id r = rowid
                     then r\<lparr>d_dataset_id := dataset_id, d_name := name, d_rows := nrows,
                            d_columns := ncolumns, d_uploaded_by := uploaded_by,
                            d_upload_date := upload_date\<rparr>
                     else r)
               (datasets_metadata db)\<rparr>)"

text \<open>DELETE FROM datasets_metadata WHERE id=?\<close>

definition DELETE_FROM_datasets_metadata :: "int \<Rightarrow> unit statement" where
  "DELETE_FROM_datasets_metadata rowid db =
     (Inr (), db\<lparr>datasets_metadata := filter (\<lambda>r. d_id r \<noteq> rowid) (datasets_metadata db)\<rparr>)"

text \<open>SELECT * FROM datasets_metadata ORDER BY upload_date DESC\<close>

definition SELECT_datasets_metadata_ORDER_BY_upload_date_DESC :: "dataset list statement" where
  "SELECT_datasets_metadata_ORDER_BY_upload_date_DESC db =
     (Inr (order_by_desc d_upload_date (datasets_metadata db)), db)"

text \<open>SELECT COUNT(*) as total FROM datasets_metadata\<close>

definition SELECT_COUNT_datasets_metadata :: "int list statement" where
  "SELECT_COUNT_datasets_metadata db =
     (Inr [count_where (\<lambda>r. True) (datasets_metadata db)], db)"

text \<open>SELECT SUM(rows) as total_rows FROM datasets_metadata: one row, NULL over no rows.\<close>

definition SELECT_SUM_rows_datasets_metadata :: "int option list statement" where
  "SELECT_SUM_rows_datasets_metadata db =
     (Inr [sql_sum (map d_rows (datasets_metadata db))], db)"

text \<open>
  SELECT uploaded_by, COUNT(*) as dataset_count, SUM(rows) as total_rows
  FROM datasets_metadata GROUP BY uploaded_by
\<close>

definition SELECT_datasets_metadata_GROUP_BY_uploaded_by ::
  "(string option \<times> int \<times> int option) list statement" where
  "SELECT_datasets_metadata_GROUP_BY_uploaded_by db =
     (Inr (map (\<lambda>k. (k,
                      count_where (\<lambda>r. d_uploaded_by r = k) (datasets_metadata db),
                      sql_sum (map d_rows
                        (filter (\<lambda>r. d_uploaded_by r = k) (datasets_metadata db)))))
             (group_keys d_uploaded_by (datasets_metadata db))), db)"







definition DatasetService_all :: "db \<Rightarrow> (exn + dataset list) \<times> db" where
  "DatasetService_all db = fetchall SELECT_datasets_metadata_ORDER_BY_upload_date_DESC db"

definition DatasetService_total_count :: "db \<Rightarrow> (exn + int) \<times> db" where
  "DatasetService_total_count db =
     (case fetchone SELECT_COUNT_datasets_metadata db of
        (Inl e, db') \<Rightarrow> (Inl e, db')
      | (Inr None, db') \<Rightarrow> (Inr 0, db')
      | (Inr (Some n), db') \<Rightarrow> (Inr n, db'))"

text \<open>\<open>result["total_rows"] if result and result["total_rows"] else 0\<close>: NULL and 0 are falsy.\<close>

definition total_rows :: "db \<Rightarrow> (exn + int) \<times> db" where
  "total_rows db =
     (case fetchone SELECT_SUM_rows_datasets_metadata db of
        (Inl e, db') \<Rightarrow> (Inl e, db')
      | (Inr None, db') \<Rightarrow> (Inr 0, db')
      | (Inr (Some None), db') \<Rightarrow> (Inr 0, db')
      | (Inr (Some (Some n)), db') \<Rightarrow> (Inr (if n \<noteq> 0 then n else 0), db'))"

definition uploader_summary ::
  "db \<Rightarrow> (exn + (string option \<times> int \<times> int option) list) \<times> db" where
  "uploader_summary db = fetchall SELECT_datasets_metadata_GROUP_BY_uploaded_by db"

section \<open>ITService\<close>

text \<open>
  INSERT INTO it_tickets (ticket_id, priority, description, status, assigned_to,
  created_at, resolution_time_hours)
\<close>

definition INSERT_INTO_it_tickets ::
  "int \<Rightarrow> string option \<Rightarrow> string option \<Rightarrow> string option \<Rightarrow> string option \<Rightarrow> string option
     \<Rightarrow> int \<Rightarrow> unit statement" where
  "INSERT_INTO_it_tickets ticket_id priority description status assigned_to created_at hours db =
     (let rowid = next_rowid (it_tickets_seq db) (map t_id (it_tickets db))
      in (Inr (),
          db\<lparr>it_tickets := it_tickets db @
                [\<lparr>t_id = rowid, t_ticket_id = ticket_id, t_priority = priority,
                  t_description = description, t_status = status,
                  t_assigned_to = assigned_to, t_created_at = created_at,
                  t_resolution_time_hours = hours\<rparr>],
             it_tickets_seq := rowid\<rparr>))"

text \<open>UPDATE it_tickets SET ticket_id=?, ..., resolution_time_hours=? WHERE id=?\<close>

definition UPDATE_it_tickets ::
  "int \<Rightarrow> string option \<Rightarrow> string option \<Rightarrow> string option \<Rightarrow> string option \<Rightarrow> string option
     \<Rightarrow> int \<Rightarrow> int \<Rightarrow> unit statement" where
  "UPDATE_it_tickets ticket_id priority description status assigned_to created_at hours rowid db =
     (Inr (),
      db\<lparr>it_tickets :=
           map (\<lambda>r. if t_id r = rowid
                     then r\<lparr>t_ticket_id := ticket_id, t_priority := priority,
                            t_description := description, t_status := status,
                            t_assigned_to := assigned_to, t_created_at := created_at,
                            t_resolution_time_hours := hours\<rparr>
                     else r)
               (it_tickets db)\<rparr>)"

text \<open>DELETE FROM it_tickets WHERE id=?\<close>

definition DELETE_FROM_it_tickets :: "int \<Rightarrow> unit statement" where
  "DELETE_FROM_it_tickets rowid db =
     (Inr (), db\<lparr>it_tickets := filter (\<lambda>r. t_id r \<noteq> rowid) (it_tickets db)\<rparr>)"

text \<open>SELECT * FROM it_tickets ORDER BY created_at DESC\<close>

definition SELECT_it_tickets_ORDER_BY_created_at_DESC :: "ticket list statement" where
  "SELECT_it_tickets_ORDER_BY_created_at_DESC db =
     (Inr (order_by_desc t_created_at (it_tickets db)), db)"

text \<open>SELECT COUNT(*) as total FROM it_tickets\<close>

definition SELECT_COUNT_it_tickets :: "int list statement" where
  "SELECT_COUNT_it_tickets db = (Inr [count_where (\<lambda>r. True) (it_tickets db)], db)"

text \<open>SELECT COUNT(*) as open_count FROM it_tickets WHERE status IN ('Open', 'In Progress')\<close>

definition SELECT_COUNT_it_tickets_WHERE_status_IN :: "int list statement" where
  "SELECT_COUNT_it_tickets_WHERE_status_IN db =
     (Inr [count_where (\<lambda>r. t_status r = Some ''Open'' \<or> t_status r = Some ''In Progress'')
             (it_tickets db)], db)"

text \<open>SELECT AVG(resolution_time_hours) as avg_res FROM it_tickets: one row, NULL over no rows.\<close>

definition SELECT_AVG_resolution_time_hours :: "rat option list statement" where
  "SELECT_AVG_resolution_time_hours db =
     (Inr [sql_avg (map t_resolution_time_hours (it_tickets db))], db)"

text \<open>SELECT col, COUNT(*) as cnt FROM it_tickets GROUP BY col\<close>

definition SELECT_COUNT_it_tickets_GROUP_BY ::
  "(ticket \<Rightarrow> string option) \<Rightarrow> (string option \<times> int) list statement" where
  "SELECT_COUNT_it_tickets_GROUP_BY col db =
     (Inr (map (\<lambda>k. (k, count_where (\<lambda>r. col r = k) (it_tickets db)))
             (group_keys col (it_tickets db))), db)"

text \<open>The groups by assignee, each with its count and its average (never NULL: a group has a row).\<close>

definition assignee_groups :: "ticket list \<Rightarrow> (string option \<times> int \<times> rat option) list" where
  "assignee_groups rows =
     map (\<lambda>k. (k,
               count_where (\<lambda>r. t_assigned_to r = k) rows,
               sql_avg (map t_resolution_time_hours (filter (\<lambda>r. t_assigned_to r = k) rows))))
         (group_keys t_assigned_to rows)"

text \<open>
  SELECT assigned_to, COUNT(*) as ticket_count, AVG(resolution_time_hours) as avg_resolution
  FROM it_tickets GROUP BY assigned_to ORDER BY ticket_count DESC
\<close>

definition SELECT_it_tickets_GROUP_BY_assigned_to_ORDER_BY_ticket_count ::
  "(string option \<times> int \<times> rat option) list statement" where
  "SELECT_it_tickets_GROUP_BY_assigned_to_ORDER_BY_ticket_count db =
     (Inr (order_by_desc (\<lambda>g. fst (snd g)) (assignee_groups (it_tickets db))), db)"

text \<open>
  SELECT assigned_to, AVG(resolution_time_hours) as avg_res
  FROM it_tickets GROUP BY assigned_to ORDER BY avg_res DESC LIMIT 1
\<close>

definition SELECT_it_tickets_GROUP_BY_assigned_to_ORDER_BY_avg_res_LIMIT_1 ::
  "(string option \<times> rat option) list statement" where
  "SELECT_it_tickets_GROUP_BY_assigned_to_ORDER_BY_avg_res_LIMIT_1 db =
     (Inr (take 1 (order_by_desc snd
             (map (\<lambda>g. (fst g, snd (snd g))) (assignee_groups (it_tickets db))))), db)"







definition ITService_all :: "db \<Rightarrow> (exn + ticket list) \<times> db" where
  "ITService_all db = fetchall SELECT_it_tickets_ORDER_BY_created_at_DESC db"

definition ITService_total_count :: "db \<Rightarrow> (exn + int) \<times> db" where
  "ITService_total_count db =
     (case fetchone SELECT_COUNT_it_tickets db of
        (Inl e, db') \<Rightarrow> (Inl e, db')
      | (Inr None, db') \<Rightarrow> (Inr 0, db')
      | (Inr (Some n), db') \<Rightarrow> (Inr n, db'))"

definition ITService_open_count :: "db \<Rightarrow> (exn + int) \<times> db" where
  "ITService_open_count db =
     (case fetchone SELECT_COUNT_it_tickets_WHERE_status_IN db of
        (Inl e, db') \<Rightarrow> (Inl e, db')
      | (Inr None, db') \<Rightarrow> (Inr 0, db')
      | (Inr (Some n), db') \<Rightarrow> (Inr n, db'))"

text \<open>
  What \<open>avg_resolution_time\<close> returns: the int 0 of the \<open>else\<close> branch, or the float
  \<open>round(avg_res, 1)\<close>. The rounding of the float is the parameter \<open>round1\<close>.
\<close>

datatype number = IntNum int | FloatNum rat

text \<open>
  \<open>round(result["avg_res"], 1) if result and result["avg_res"] else 0\<close>: no row, NULL
  and the float 0.0 are falsy.
\<close>

definition avg_resolution_time :: "(rat \<Rightarrow> rat) \<Rightarrow> db \<Rightarrow> (exn + number) \<times> db" where
  "avg_resolution_time round1 db =
     (case fetchone SELECT_AVG_resolution_time_hours db of
        (Inl e, db') \<Rightarrow> (Inl e, db')
      | (Inr None, db') \<Rightarrow> (Inr (IntNum 0), db')
      | (Inr (Some None), db') \<Rightarrow> (Inr (IntNum 0), db')
      | (Inr (Some (Some avg_res)), db') \<Rightarrow>
          (Inr (if avg_res \<noteq> 0 then FloatNum (round1 avg_res) else IntNum 0), db'))"

definition priority_counts :: "db \<Rightarrow> (exn + (string option \<times> int) list) \<times> db" where
  "priority_counts db = fetchall (SELECT_COUNT_it_tickets_GROUP_BY t_priority) db"

definition ITService_status_counts :: "db \<Rightarrow> (exn + (string option \<times> int) list) \<times> db" where
  "ITService_status_counts db = fetchall (SELECT_COUNT_it_tickets_GROUP_BY t_status) db"

definition assignee_summary ::
  "db \<Rightarrow> (exn + (string option \<times> int \<times> rat option) list) \<times> db" where
  "assignee_summary db =
     fetchall SELECT_it_tickets_GROUP_BY_assigned_to_ORDER_BY_ticket_count db"

definition slowest_assignee :: "db \<Rightarrow> (exn + (string option \<times> rat option) list) \<times> db" where
  "slowest_assignee db =
     fetchall SELECT_it_tickets_GROUP_BY_assigned_to_ORDER_BY_avg_res_LIMIT_1 db"

section \<open>Sequences of AuthManager calls\<close>

datatype auth_call =
    Register string string string string
  | RegisterDefault string string string
  | Login string string

text \<open>
  The store after one call and after a list of calls; \<open>Register salt username password role\<close>
  carries the salt drawn for it.
\<close>

fun auth_step ::
  "(string \<Rightarrow> string \<Rightarrow> exn + string) \<Rightarrow> (string \<Rightarrow> string \<Rightarrow> exn + bool) \<Rightarrow> auth_call \<Rightarrow> db \<Rightarrow> db" where
  "auth_step hashpw checkpw (Register salt username password role) db =
     snd (register hashpw salt username password role db)"
| "auth_step hashpw checkpw (RegisterDefault salt username password) db =
     snd (register_default hashpw salt username password db)"
| "auth_step hashpw checkpw (Login username password) db =
     snd (login checkpw username password db)"

definition auth_run ::
  "(string \<Rightarrow> string \<Rightarrow> exn + string) \<Rightarrow> (string \<Rightarrow> string \<Rightarrow> exn + bool) \<Rightarrow> auth_call list \<Rightarrow> db \<Rightarrow> db" where
  "auth_run hashpw checkpw calls db = fold (auth_step hashpw checkpw) calls db"

definition role_enum :: "string \<Rightarrow> bool" where
  "role_enum role = (role = ''user'' \<or> role = ''admin'')"

fun call_role_enum :: "auth_call \<Rightarrow> bool" where
  "call_role_enum (Register salt username password role) = role_enum role"
| "call_role_enum (RegisterDefault salt username password) = True"
| "call_role_enum (Login username password) = True"

section \<open>Concrete stores and stand-ins used to evaluate the model\<close>

definition empty_db :: db where
  "empty_db =
     \<lparr>users = [], users_seq = 0, cyber_incidents = [], cyber_incidents_seq = 0,
      datasets_metadata = [], datasets_metadata_seq = 0, it_tickets = [], it_tickets_seq = 0\<rparr>"

text \<open>
  A stand-in pair for bcrypt: a hash verifies against the password it was made from, and
  a password of more than 72 bytes is refused with ValueError, as bcrypt refuses it from
  version 5.0.0 on. The salt has two bytes.
\<close>

definition toy_hashpw :: "string \<Rightarrow> string \<Rightarrow> exn + string" where
  "toy_hashpw password salt =
     (if 72 < length password then Inl ValueError else Inr (take 2 salt @ password))"

definition toy_checkpw :: "string \<Rightarrow> string \<Rightarrow> exn + bool" where
  "toy_checkpw password hashed =
     (if length hashed < 2 then Inl ValueError else Inr (drop 2 hashed = password))"

text \<open>
  A users table whose rows hold the same credential in each representation, a NULL
  credential, and a credential that makes the stand-in for \<open>checkpw\<close> raise.
\<close>

definition mixed_cred_db :: db where
  "mixed_cred_db =
     empty_db\<lparr>users :=
       [\<lparr>u_id = 1, u_username = ''bob'', u_password_hash = CBytes ''s1pw'', u_role = ''user''\<rparr>,
        \<lparr>u_id = 2, u_username = ''carol'', u_password_hash = CMemoryView ''s1pw'',
          u_role = ''user''\<rparr>,
        \<lparr>u_id = 3, u_username = ''dave'', u_password_hash = CStr ''s1pw'', u_role = ''admin''\<rparr>,
        \<lparr>u_id = 4, u_username = ''erin'', u_password_hash = CNull, u_role = ''user''\<rparr>,
        \<lparr>u_id = 5, u_username = ''frank'', u_password_hash = CBytes ''x'', u_role = ''user''\<rparr>],
       users_seq := 5\<rparr>"

text \<open>The incidents of the aggregate examples: four severities, and three statuses.\<close>

definition severity_example_db :: db where
  "severity_example_db =
     empty_db\<lparr>cyber_incidents :=
       [\<lparr>i_id = 1, i_incident_id = 1001, i_timestamp = Some ''2024-01-15 10:00:00'',
         i_severity = Some ''High'', i_category = Some ''Phishing'', i_status = Some ''Open'',
         i_description = Some ''a''\<rparr>,
        \<lparr>i_id = 2, i_incident_id = 1002, i_timestamp = Some ''2024-03-02 08:30:00'',
         i_severity = Some ''Critical'', i_category = Some ''Malware'',
         i_status = Some ''Closed'', i_description = Some ''b''\<rparr>,
        \<lparr>i_id = 3, i_incident_id = 1003, i_timestamp = None,
         i_severity = Some ''Low'', i_category = Some ''DDoS'', i_status = Some ''Resolved'',
         i_description = None\<rparr>,
        \<lparr>i_id = 4, i_incident_id = 1004, i_timestamp = Some ''2024-02-20 23:59:59'',
         i_severity = Some ''High'', i_category = Some ''Phishing'',
         i_status = Some ''In Progress'', i_description = Some ''d''\<rparr>],
       cyber_incidents_seq := 4\<rparr>"

definition status_example_db :: db where
  "status_example_db =
     empty_db\<lparr>cyber_incidents :=
       [\<lparr>i_id = 1, i_incident_id = 7, i_timestamp = Some ''2024-01-15 10:00:00'',
         i_severity = Some ''High'', i_category = Some ''Phishing'', i_status = Some ''Open'',
         i_description = Some ''a''\<rparr>,
        \<lparr>i_id = 2, i_incident_id = 8, i_timestamp = Some ''2024-01-16 10:00:00'',
         i_severity = Some ''Low'', i_category = Some ''Malware'', i_status = Some ''Closed'',
         i_description = Some ''b''\<rparr>,
        \<lparr>i_id = 3, i_incident_id = 9, i_timestamp = Some ''2024-01-17 10:00:00'',
         i_severity = Some ''Low'', i_category = Some ''DDoS'',
         i_status = Some ''In Progress'', i_description = Some ''c''\<rparr>],
       cyber_incidents_seq := 3\<rparr>"

text \<open>Three tickets with durations 0, 5 and 4 hours, and two unresolved tickets.\<close>

definition tickets_example_db :: db where
  "tickets_example_db =
     empty_db\<lparr>it_tickets :=
       [\<lparr>t_id = 1, t_ticket_id = 2000, t_priority = Some ''High'',
         t_description = Some ''Email issue'', t_status = Some ''Open'',
         t_assigned_to = Some ''IT_Support_A'', t_created_at = Some ''2024-01-15 10:00:00'',
         t_resolution_time_hours = 0\<rparr>,
        \<lparr>t_id = 2, t_ticket_id = 2001, t_priority = Some ''Low'',
         t_description = Some ''Printer'', t_status = Some ''Resolved'',
         t_assigned_to = Some ''IT_Support_B'', t_created_at = Some ''2024-01-16 09:00:00'',
         t_resolution_time_hours = 5\<rparr>,
        \<lparr>t_id = 3, t_ticket_id = 2002, t_priority = Some ''Low'',
         t_description = Some ''VPN'', t_status = Some ''Resolved'',
         t_assigned_to = Some ''IT_Support_A'', t_created_at = Some ''2024-01-14 17:00:00'',
         t_resolution_time_hours = 4\<rparr>],
       it_tickets_seq := 3\<rparr>"

definition unresolved_example_db :: db where
  "unresolved_example_db =
     empty_db\<lparr>it_tickets :=
       [\<lparr>t_id = 1, t_ticket_id = 2000, t_priority = Some ''High'',
         t_description = Some ''Email issue'', t_status = Some ''Open'',
         t_assigned_to = Some ''IT_Support_A'', t_created_at = Some ''2024-01-15 10:00:00'',
         t_resolution_time_hours = 0\<rparr>,
        \<lparr>t_id = 2, t_ticket_id = 2001, t_priority = Some ''Low'',
         t_description = Some ''Printer'', t_status = Some ''In Progress'',
         t_assigned_to = Some ''IT_Support_B'', t_created_at = Some ''2024-01-16 09:00:00'',
         t_resolution_time_hours = 0\<rparr>],
       it_tickets_seq := 2\<rparr>"

text \<open>
  A stand-in for \<open>round(x, 1)\<close> on exact rationals: the nearest multiple of one tenth,
  a tie going to the even one.
\<close>

definition toy_round1 :: "rat \<Rightarrow> rat" where
  "toy_round1 x =
     (let t = x * 10; f = \<lfloor>t\<rfloor>; d = t - of_int f
      in of_int (if d < 1 / 2 then f else if 1 / 2 < d then f + 1
                 else if even f then f else f + 1) / 10)"

text \<open>
  What newest-first compares: the calendar reading of a stored date or timestamp, the
  numbers written in it from the year down (each run of digits read in decimal). NULL
  reads as no time, below every time.
\<close>

fun digit_runs :: "string \<Rightarrow> nat option \<Rightarrow> nat list" where
  "digit_runs [] None = []"
| "digit_runs [] (Some n) = [n]"
| "digit_runs (c # cs) run =
     (if is_digit c
      then digit_runs cs (Some (10 * (case run of None \<Rightarrow> 0 | Some n \<Rightarrow> n) + digit_val c))
      else (case run of None \<Rightarrow> digit_runs cs None | Some n \<Rightarrow> n # digit_runs cs None))"

definition calendar :: "string option \<Rightarrow> nat list option" where
  "calendar key = map_option (\<lambda>s. digit_runs s None) key"

text \<open>
  Two incidents created one after the other, the first dated 1 September 2024 and the
  second 1 October 2024, with the month of the first written without a leading zero.
\<close>

definition unpadded_example_db :: db where
  "unpadded_example_db =
     snd (create_incident (PInt 2) ''2024-10-01 10:00:00'' ''Low'' ''Malware'' ''Open'' ''b''
       (snd (create_incident (PInt 1) ''2024-9-01 10:00:00'' ''High'' ''Phishing'' ''Open'' ''a''
          empty_db)))"

text \<open>Three data sets, the second uploaded last and the third without an upload date.\<close>

definition datasets_example_db :: db where
  "datasets_example_db =
     empty_db\<lparr>datasets_metadata :=
       [\<lparr>d_id = 1, d_dataset_id = 1, d_name = Some ''Customer_Churn'', d_rows = 1000,
         d_columns = 12, d_uploaded_by = Some ''data_scientist'',
         d_upload_date = Some ''2024-01-15''\<rparr>,
        \<lparr>d_id = 2, d_dataset_id = 2, d_name = Some ''Network_Logs'', d_rows = 50000,
         d_columns = 8, d_uploaded_by = Some ''cyber_admin'',
         d_upload_date = Some ''2024-02-01''\<rparr>,
        \<lparr>d_id = 3, d_dataset_id = 3, d_name = Some ''Tickets'', d_rows = 0,
         d_columns = 5, d_uploaded_by = None, d_upload_date = None\<rparr>],
       datasets_metadata_seq := 3\<rparr>"








section \<open>Properties\<close>

subsection \<open>Row identifiers\<close>

lemma fold_max_ge: "(a::int) \<le> fold max ids a"
proof (induction ids arbitrary: a)
  case Nil then show ?case by simp
next
  case (Cons x xs)
  have "a \<le> max x a" by simp
  also have "\<dots> \<le> fold max xs (max x a)" by (rule Cons.IH)
  finally show ?case by simp
qed

lemma fold_max_upper: "i \<in> set ids \<Longrightarrow> (i::int) \<le> fold max ids a"
proof (induction ids arbitrary: a)
  case Nil then show ?case by simp
next
  case (Cons x xs)
  show ?case
  proof (cases "i = x")
    case True
    have "x \<le> max x a" by simp
    also have "\<dots> \<le> fold max xs (max x a)" by (rule fold_max_ge)
    finally show ?thesis using True by simp
  next
    case False
    with Cons show ?thesis by simp
  qed
qed

lemma next_rowid_fresh: "next_rowid seq ids \<notin> set ids"
proof
  assume "next_rowid seq ids \<in> set ids"
  then have "next_rowid seq ids \<le> fold max ids 0" by (rule fold_max_upper)
  then show False by (simp add: next_rowid_def)
qed

subsection \<open>Registration\<close>

lemma register_rejects:
  "username = [] \<or> password = []
     \<Longrightarrow> register hashpw salt username password role db = (Inr False, db)"
  by (auto simp: register_def)


lemma register_conflict:
  "hashpw password salt = Inr h \<Longrightarrow> username \<in> set (map u_username (users db))
     \<Longrightarrow> register hashpw salt username password role db = (Inr False, db)"
  by (simp add: register_def execute_def INSERT_INTO_users_def)

lemma register_accepts:
  "username \<noteq> [] \<Longrightarrow> password \<noteq> [] \<Longrightarrow> hashpw password salt = Inr h
     \<Longrightarrow> username \<notin> set (map u_username (users db))
     \<Longrightarrow> register hashpw salt username password role db =
            (Inr True,
             db\<lparr>users := users db @
                  [\<lparr>u_id = next_rowid (users_seq db) (map u_id (users db)),
                    u_username = username, u_password_hash = CBytes h, u_role = role\<rparr>],
                users_seq := next_rowid (users_seq db) (map u_id (users db))\<rparr>)"
  by (simp add: register_def execute_def INSERT_INTO_users_def Let_def)




subsection \<open>Login\<close>

lemma fetchone_user:
  "fetchone (SELECT_users_WHERE_username username) db =
     (Inr (case filter (\<lambda>r. u_username r = username) (users db) of
             [] \<Rightarrow> None | r # rs \<Rightarrow> Some r), db)"
  by (simp add: fetchone_def SELECT_users_WHERE_username_def)

lemma login_found:
  "username \<noteq> [] \<Longrightarrow> password \<noteq> []
     \<Longrightarrow> filter (\<lambda>r. u_username r = username) (users db) = row # rows
     \<Longrightarrow> login checkpw username password db =
           ((case verify checkpw password (u_password_hash row) of
               Inr True \<Rightarrow>
                 Inr (Some [(''id'', PInt (u_id row)), (''username'', PStr (u_username row)),
                            (''role'', PStr (u_role row))])
             | Inr False \<Rightarrow> Inr None
             | Inl e \<Rightarrow> Inr None), db)"
  by (simp add: login_def fetchone_user split: sum.splits bool.splits)

lemma login_absent:
  "username = [] \<or> password = [] \<or> username \<notin> set (map u_username (users db))
     \<Longrightarrow> login checkpw username password db = (Inr None, db)"
proof -
  assume a: "username = [] \<or> password = [] \<or> username \<notin> set (map u_username (users db))"
  show ?thesis
  proof (cases "username = [] \<or> password = []")
    case True
    then show ?thesis by (simp add: login_def)
  next
    case False
    with a have "filter (\<lambda>r. u_username r = username) (users db) = []"
      by (auto simp: filter_empty_conv)
    with False show ?thesis by (simp add: login_def fetchone_user)
  qed
qed

lemma login_keys:
  "fst (login checkpw username password db) = Inr (Some d)
     \<Longrightarrow> map fst d = [''id'', ''username'', ''role'']"
  by (auto simp: login_def fetchone_user split: if_splits list.splits sum.splits bool.splits)

text \<open>
  Claim C3. When \<open>register\<close> has succeeded for a username and a password, and bcrypt
  verifies the password against the hash it made of it, \<open>login\<close> with the same pair
  on the resulting store returns the row's id, the username and the role; and whatever
  \<open>login\<close> returns, on any store, has exactly the keys id, username and role, so the
  stored credential is in no result.
\<close>

theorem login_after_register:
  "hashpw password salt = Inr h \<and> checkpw password h = Inr True
     \<and> register hashpw salt username password role db = (Inr True, db')
   \<longrightarrow> login checkpw username password db' =
         (Inr (Some [(''id'', PInt (next_rowid (users_seq db) (map u_id (users db)))),
                     (''username'', PStr username), (''role'', PStr role)]), db')
       \<and> (\<forall>u p s d. fst (login checkpw u p s) = Inr (Some d)
             \<longrightarrow> map fst d = [''id'', ''username'', ''role''])"
proof (intro impI conjI allI)
  assume a: "hashpw password salt = Inr h \<and> checkpw password h = Inr True
     \<and> register hashpw salt username password role db = (Inr True, db')"
  then have ok: "register hashpw salt username password role db = (Inr True, db')"
    and hp: "hashpw password salt = Inr h" by simp_all
  have ne: "username \<noteq> [] \<and> password \<noteq> [] \<and> username \<notin> set (map u_username (users db))"
  proof (rule ccontr)
    assume "\<not> ?thesis"
    then have "username = [] \<or> password = [] \<or> username \<in> set (map u_username (users db))"
      by blast
    then have "register hashpw salt username password role db = (Inr False, db)"
      using hp by (auto simp: register_rejects register_conflict)
    with ok show False by simp
  qed
  let ?row = "\<lparr>u_id = next_rowid (users_seq db) (map u_id (users db)), u_username = username,
               u_password_hash = CBytes h, u_role = role\<rparr>"
  from ne ok hp have db': "users db' = users db @ [?row]"
    by (auto simp: register_accepts)
  from ne have "filter (\<lambda>r. u_username r = username) (users db) = []"
    by (auto simp: filter_empty_conv)
  then have f: "filter (\<lambda>r. u_username r = username) (users db') = ?row # []"
    by (simp add: db')
  from a have v: "verify checkpw password (u_password_hash ?row) = Inr True"
    by (simp add: verify_def)
  from ne have "username \<noteq> []" "password \<noteq> []" by simp_all
  from login_found [OF this f, of checkpw] v
  show "login checkpw username password db' =
         (Inr (Some [(''id'', PInt (next_rowid (users_seq db) (map u_id (users db)))),
                     (''username'', PStr username), (''role'', PStr role)]), db')"
    by simp
next
  fix u p s d
  assume "fst (login checkpw u p s) = Inr (Some d)"
  then show "map fst d = [''id'', ''username'', ''role'']" by (rule login_keys)
qed

theorem login_after_register_witness:
  "login toy_checkpw ''alice'' ''pw''
     (snd (register toy_hashpw ''s1'' ''alice'' ''pw'' ''admin'' empty_db)) =
     (Inr (Some [(''id'', PInt 1), (''username'', PStr ''alice''), (''role'', PStr ''admin'')]),
      snd (register toy_hashpw ''s1'' ''alice'' ''pw'' ''admin'' empty_db))"
proof -
  let ?db' = "snd (register toy_hashpw ''s1'' ''alice'' ''pw'' ''admin'' empty_db)"
  have h: "toy_hashpw ''pw'' ''s1'' = Inr ''s1pw''"
    by (simp add: toy_hashpw_def)
  have c: "toy_checkpw ''pw'' ''s1pw'' = Inr True"
    by (simp add: toy_checkpw_def)
  have r: "register toy_hashpw ''s1'' ''alice'' ''pw'' ''admin'' empty_db = (Inr True, ?db')"
    by (simp add: register_def h execute_def INSERT_INTO_users_def empty_db_def Let_def)
  have n: "next_rowid (users_seq empty_db) (map u_id (users empty_db)) = 1"
    by (simp add: next_rowid_def empty_db_def)
  from login_after_register [where checkpw = toy_checkpw and password = "''pw''"
      and hashpw = toy_hashpw and salt = "''s1''" and username = "''alice''"
      and role = "''admin''" and db = empty_db and db' = ?db' and h = "''s1pw''"] h c r
  have "login toy_checkpw ''alice'' ''pw'' ?db' =
         (Inr (Some [(''id'', PInt (next_rowid (users_seq empty_db) (map u_id (users empty_db)))),
                     (''username'', PStr ''alice''), (''role'', PStr ''admin'')]), ?db')"
    by blast
  then show ?thesis by (simp only: n)
qed

text \<open>
  Claim C4. \<open>login\<close> never raises. It returns None when the username is empty, when the
  password is empty and when no row has the username. When a row is found, the stored
  credential may be bytes, a memory view or a text: all three are brought to the same
  bytes, and the outcome is decided by \<open>bcrypt.checkpw\<close> on them alone: the identity
  when it returns True, None when it returns False and None when it raises. A NULL
  credential gives None as well.
\<close>

theorem login_failure_is_None:
  "(\<forall>e. fst (login checkpw username password db) \<noteq> Inl e)
   \<and> (username = [] \<longrightarrow> fst (login checkpw username password db) = Inr None)
   \<and> (password = [] \<longrightarrow> fst (login checkpw username password db) = Inr None)
   \<and> (username \<notin> set (map u_username (users db))
        \<longrightarrow> fst (login checkpw username password db) = Inr None)
   \<and> (username \<noteq> [] \<and> password \<noteq> []
        \<and> filter (\<lambda>r. u_username r = username) (users db) = row # rows
        \<and> (u_password_hash row = CBytes b \<or> u_password_hash row = CMemoryView b
             \<or> u_password_hash row = CStr b)
        \<longrightarrow> fst (login checkpw username password db) =
              (case checkpw password b of
                 Inr True \<Rightarrow>
                   Inr (Some [(''id'', PInt (u_id row)), (''username'', PStr (u_username row)),
                              (''role'', PStr (u_role row))])
               | Inr False \<Rightarrow> Inr None
               | Inl e \<Rightarrow> Inr None))
   \<and> (username \<noteq> [] \<and> password \<noteq> []
        \<and> filter (\<lambda>r. u_username r = username) (users db) = row # rows
        \<and> u_password_hash row = CNull
        \<longrightarrow> fst (login checkpw username password db) = Inr None)"
proof (intro conjI impI allI)
  fix e
  show "fst (login checkpw username password db) \<noteq> Inl e"
    by (auto simp: login_def fetchone_user split: list.splits sum.splits bool.splits)
next
  assume "username = []"
  then show "fst (login checkpw username password db) = Inr None"
    by (simp add: login_absent)
next
  assume "password = []"
  then show "fst (login checkpw username password db) = Inr None"
    by (simp add: login_absent)
next
  assume "username \<notin> set (map u_username (users db))"
  then show "fst (login checkpw username password db) = Inr None"
    by (simp add: login_absent)
next
  assume a: "username \<noteq> [] \<and> password \<noteq> []
        \<and> filter (\<lambda>r. u_username r = username) (users db) = row # rows
        \<and> (u_password_hash row = CBytes b \<or> u_password_hash row = CMemoryView b
             \<or> u_password_hash row = CStr b)"
  then have v: "verify checkpw password (u_password_hash row) = checkpw password b"
    by (auto simp: verify_def)
  from a have "login checkpw username password db =
           ((case verify checkpw password (u_password_hash row) of
               Inr True \<Rightarrow>
                 Inr (Some [(''id'', PInt (u_id row)), (''username'', PStr (u_username row)),
                            (''role'', PStr (u_role row))])
             | Inr False \<Rightarrow> Inr None
             | Inl e \<Rightarrow> Inr None), db)"
    by (intro login_found) simp_all
  then show "fst (login checkpw username password db) =
              (case checkpw password b of
                 Inr True \<Rightarrow>
                   Inr (Some [(''id'', PInt (u_id row)), (''username'', PStr (u_username row)),
                              (''role'', PStr (u_role row))])
               | Inr False \<Rightarrow> Inr None
               | Inl e \<Rightarrow> Inr None)"
    by (simp add: v)
next
  assume a: "username \<noteq> [] \<and> password \<noteq> []
        \<and> filter (\<lambda>r. u_username r = username) (users db) = row # rows
        \<and> u_password_hash row = CNull"
  then have v: "verify checkpw password (u_password_hash row) = Inl TypeError"
    by (simp add: verify_def)
  from a have "login checkpw username password db =
           ((case verify checkpw password (u_password_hash row) of
               Inr True \<Rightarrow>
                 Inr (Some [(''id'', PInt (u_id row)), (''username'', PStr (u_username row)),
                            (''role'', PStr (u_role row))])
             | Inr False \<Rightarrow> Inr None
             | Inl e \<Rightarrow> Inr None), db)"
    by (intro login_found) simp_all
  then show "fst (login checkpw username password db) = Inr None"
    by (simp add: v)
qed


lemma mixed_cred_rows:
  "filter (\<lambda>r. u_username r = ''carol'') (users mixed_cred_db) =
     \<lparr>u_id = 2, u_username = ''carol'', u_password_hash = CMemoryView ''s1pw'',
       u_role = ''user''\<rparr> # []"
  "filter (\<lambda>r. u_username r = ''dave'') (users mixed_cred_db) =
     \<lparr>u_id = 3, u_username = ''dave'', u_password_hash = CStr ''s1pw'', u_role = ''admin''\<rparr> # []"
  "filter (\<lambda>r. u_username r = ''erin'') (users mixed_cred_db) =
     \<lparr>u_id = 4, u_username = ''erin'', u_password_hash = CNull, u_role = ''user''\<rparr> # []"
  "filter (\<lambda>r. u_username r = ''frank'') (users mixed_cred_db) =
     \<lparr>u_id = 5, u_username = ''frank'', u_password_hash = CBytes ''x'', u_role = ''user''\<rparr> # []"
  by (simp_all add: mixed_cred_db_def empty_db_def)

theorem login_failure_is_None_witness:
  "fst (login toy_checkpw ''carol'' ''pw'' mixed_cred_db) =
     Inr (Some [(''id'', PInt 2), (''username'', PStr ''carol''), (''role'', PStr ''user'')])
   \<and> fst (login toy_checkpw ''dave'' ''pw'' mixed_cred_db) =
     Inr (Some [(''id'', PInt 3), (''username'', PStr ''dave''), (''role'', PStr ''admin'')])
   \<and> fst (login toy_checkpw ''dave'' ''wrong'' mixed_cred_db) = Inr None
   \<and> fst (login toy_checkpw ''frank'' ''pw'' mixed_cred_db) = Inr None
   \<and> fst (login toy_checkpw ''erin'' ''pw'' mixed_cred_db) = Inr None
   \<and> fst (login toy_checkpw ''zoe'' ''pw'' mixed_cred_db) = Inr None
   \<and> fst (login toy_checkpw [] ''pw'' mixed_cred_db) = Inr None
   \<and> fst (login toy_checkpw ''dave'' [] mixed_cred_db) = Inr None"
proof -
  have 1: "fst (login toy_checkpw ''carol'' ''pw'' mixed_cred_db) =
     Inr (Some [(''id'', PInt 2), (''username'', PStr ''carol''), (''role'', PStr ''user'')])"
    using login_failure_is_None [where checkpw = toy_checkpw and username = "''carol''" and password = "''pw''" and db = mixed_cred_db and row = "\<lparr>u_id = 2, u_username = ''carol'', u_password_hash = CMemoryView ''s1pw'', u_role = ''user''\<rparr>" and rows = "[]" and b = "''s1pw''"]
      mixed_cred_rows(1)
    by (simp add: toy_checkpw_def)
  have 2: "fst (login toy_checkpw ''dave'' ''pw'' mixed_cred_db) =
     Inr (Some [(''id'', PInt 3), (''username'', PStr ''dave''), (''role'', PStr ''admin'')])"
    using login_failure_is_None [where checkpw = toy_checkpw and username = "''dave''" and password = "''pw''" and db = mixed_cred_db and row = "\<lparr>u_id = 3, u_username = ''dave'', u_password_hash = CStr ''s1pw'', u_role = ''admin''\<rparr>" and rows = "[]" and b = "''s1pw''"]
      mixed_cred_rows(2)
    by (simp add: toy_checkpw_def)
  have 3: "fst (login toy_checkpw ''dave'' ''wrong'' mixed_cred_db) = Inr None"
    using login_failure_is_None [where checkpw = toy_checkpw and username = "''dave''" and password = "''wrong''" and db = mixed_cred_db and row = "\<lparr>u_id = 3, u_username = ''dave'', u_password_hash = CStr ''s1pw'', u_role = ''admin''\<rparr>" and rows = "[]" and b = "''s1pw''"]
      mixed_cred_rows(2)
    by (simp add: toy_checkpw_def)
  have 4: "fst (login toy_checkpw ''frank'' ''pw'' mixed_cred_db) = Inr None"
    using login_failure_is_None [where checkpw = toy_checkpw and username = "''frank''" and password = "''pw''" and db = mixed_cred_db and row = "\<lparr>u_id = 5, u_username = ''frank'', u_password_hash = CBytes ''x'', u_role = ''user''\<rparr>" and rows = "[]" and b = "''x''"]
      mixed_cred_rows(4)
    by (simp add: toy_checkpw_def)
  have 5: "fst (login toy_checkpw ''erin'' ''pw'' mixed_cred_db) = Inr None"
    using login_failure_is_None [where checkpw = toy_checkpw and username = "''erin''" and password = "''pw''" and db = mixed_cred_db and row = "\<lparr>u_id = 4, u_username = ''erin'', u_password_hash = CNull, u_role = ''user''\<rparr>" and rows = "[]"]
      mixed_cred_rows(3)
    by simp
  have 6: "fst (login toy_checkpw ''zoe'' ''pw'' mixed_cred_db) = Inr None"
    using login_failure_is_None [of toy_checkpw "''zoe''" "''pw''" mixed_cred_db]
    by (simp add: mixed_cred_db_def empty_db_def)
  have 7: "fst (login toy_checkpw [] ''pw'' mixed_cred_db) = Inr None"
    using login_failure_is_None [of toy_checkpw "[]" "''pw''" mixed_cred_db] by simp
  have 8: "fst (login toy_checkpw ''dave'' [] mixed_cred_db) = Inr None"
    using login_failure_is_None [of toy_checkpw "''dave''" "[]" mixed_cred_db] by simp
  from 1 2 3 4 5 6 7 8 show ?thesis by blast
qed

subsection \<open>Roles\<close>

lemma register_roles:
  "list_all (\<lambda>r. role_enum (u_role r)) (users db) \<Longrightarrow> role_enum role
     \<Longrightarrow> list_all (\<lambda>r. role_enum (u_role r))
           (users (snd (register hashpw salt username password role db)))"
  by (auto simp: register_def execute_def INSERT_INTO_users_def Let_def split: sum.splits)

lemma login_store: "snd (login checkpw username password db) = db"
  by (auto simp: login_def fetchone_user split: list.splits sum.splits bool.splits)

lemma auth_step_roles:
  "list_all (\<lambda>r. role_enum (u_role r)) (users db) \<Longrightarrow> call_role_enum c
     \<Longrightarrow> list_all (\<lambda>r. role_enum (u_role r)) (users (auth_step hashpw checkpw c db))"
proof (cases c)
  case (Register salt username password role)
  assume "list_all (\<lambda>r. role_enum (u_role r)) (users db)" "call_role_enum c"
  with Register show ?thesis by (simp add: register_roles)
next
  case (RegisterDefault salt username password)
  assume "list_all (\<lambda>r. role_enum (u_role r)) (users db)" "call_role_enum c"
  moreover have "role_enum ''user''" by (simp add: role_enum_def)
  ultimately show ?thesis using RegisterDefault
    by (simp add: register_default_def register_roles)
next
  case (Login username password)
  assume "list_all (\<lambda>r. role_enum (u_role r)) (users db)" "call_role_enum c"
  with Login show ?thesis by (simp add: login_store)
qed

text \<open>
  Claim C8, as the code has it. \<open>register\<close> stores the role string it is given, whatever
  it is, and 'user' when the caller passes none. So over any list of AuthManager calls
  in which every \<open>register\<close> passes 'user' or 'admin' (or no role), a users table whose
  roles are all 'user' or 'admin' stays so; the store does not enforce it.
\<close>

theorem roles_follow_the_callers:
  "list_all (\<lambda>r. role_enum (u_role r)) (users db) \<and> list_all call_role_enum calls
     \<longrightarrow> list_all (\<lambda>r. role_enum (u_role r)) (users (auth_run hashpw checkpw calls db))"
proof (induction calls arbitrary: db)
  case Nil
  show ?case by (simp add: auth_run_def)
next
  case (Cons c calls)
  show ?case
  proof
    assume a: "list_all (\<lambda>r. role_enum (u_role r)) (users db) \<and> list_all call_role_enum (c # calls)"
    then have "list_all (\<lambda>r. role_enum (u_role r)) (users (auth_step hashpw checkpw c db))"
      by (simp add: auth_step_roles)
    with a Cons.IH [of "auth_step hashpw checkpw c db"]
    show "list_all (\<lambda>r. role_enum (u_role r))
            (users (auth_run hashpw checkpw (c # calls) db))"
      by (simp add: auth_run_def)
  qed
qed

theorem roles_follow_the_callers_witness:
  "list_all (\<lambda>r. role_enum (u_role r))
     (users (auth_run toy_hashpw toy_checkpw
        [Register ''s1'' ''root'' ''pw'' ''admin'', RegisterDefault ''s2'' ''alice'' ''pw'',
         Login ''alice'' ''pw''] empty_db))
   \<and> map u_role (users (auth_run toy_hashpw toy_checkpw
        [Register ''s1'' ''root'' ''pw'' ''admin'', RegisterDefault ''s2'' ''alice'' ''pw'',
         Login ''alice'' ''pw''] empty_db)) = [''admin'', ''user'']"
proof -
  have h: "list_all (\<lambda>r. role_enum (u_role r)) (users empty_db)
      \<and> list_all call_role_enum
          [Register ''s1'' ''root'' ''pw'' ''admin'', RegisterDefault ''s2'' ''alice'' ''pw'',
           Login ''alice'' ''pw'']"
    by (simp add: empty_db_def role_enum_def)
  from roles_follow_the_callers [of empty_db _ toy_hashpw toy_checkpw] h
  have 1: "list_all (\<lambda>r. role_enum (u_role r))
     (users (auth_run toy_hashpw toy_checkpw
        [Register ''s1'' ''root'' ''pw'' ''admin'', RegisterDefault ''s2'' ''alice'' ''pw'',
         Login ''alice'' ''pw''] empty_db))"
    by blast
  have 2: "map u_role (users (auth_run toy_hashpw toy_checkpw
        [Register ''s1'' ''root'' ''pw'' ''admin'', RegisterDefault ''s2'' ''alice'' ''pw'',
         Login ''alice'' ''pw''] empty_db)) = [''admin'', ''user'']"
    by (simp add: auth_run_def register_default_def register_def toy_hashpw_def execute_def
        INSERT_INTO_users_def Let_def empty_db_def login_store)
  from 1 2 show ?thesis by blast
qed

text \<open>
  The claim as stated fails: one \<open>register\<close> call with another role string persists a
  row whose role is neither 'user' nor 'admin'.
\<close>

theorem role_outside_enum_counterexample:
  "fst (register toy_hashpw ''s1'' ''bob'' ''pw'' ''superuser'' empty_db) = Inr True
   \<and> map u_role (users (snd (register toy_hashpw ''s1'' ''bob'' ''pw'' ''superuser'' empty_db)))
       = [''superuser'']
   \<and> \<not> list_all (\<lambda>r. u_role r = ''user'' \<or> u_role r = ''admin'')
         (users (snd (register toy_hashpw ''s1'' ''bob'' ''pw'' ''superuser'' empty_db)))"
  by (simp add: register_def toy_hashpw_def execute_def INSERT_INTO_users_def Let_def
      empty_db_def)

subsection \<open>Queries leave the store as it was\<close>

lemma security_queries_store:
  "snd (SecurityService_all db) = db"
  "snd (SecurityService_total_count db) = db"
  "snd (SecurityService_open_count db) = db"
  "snd (category_counts db) = db"
  "snd (severity_counts db) = db"
  "snd (SecurityService_status_counts db) = db"
  by (simp_all add: SecurityService_all_def SecurityService_total_count_def
      SecurityService_open_count_def category_counts_def severity_counts_def
      SecurityService_status_counts_def fetchall_def fetchone_def
      SELECT_cyber_incidents_ORDER_BY_timestamp_DESC_def SELECT_COUNT_cyber_incidents_def
      SELECT_COUNT_cyber_incidents_WHERE_status_IN_def
      SELECT_COUNT_cyber_incidents_GROUP_BY_def)

lemma dataset_queries_store:
  "snd (DatasetService_all db) = db"
  "snd (DatasetService_total_count db) = db"
  "snd (total_rows db) = db"
  "snd (uploader_summary db) = db"
  by (simp_all add: DatasetService_all_def DatasetService_total_count_def total_rows_def
      uploader_summary_def fetchall_def fetchone_def
      SELECT_datasets_metadata_ORDER_BY_upload_date_DESC_def SELECT_COUNT_datasets_metadata_def
      SELECT_SUM_rows_datasets_metadata_def SELECT_datasets_metadata_GROUP_BY_uploaded_by_def
      split: option.splits)

lemma ticket_queries_store:
  "snd (ITService_all db) = db"
  "snd (ITService_total_count db) = db"
  "snd (ITService_open_count db) = db"
  "snd (avg_resolution_time round1 db) = db"
  "snd (priority_counts db) = db"
  "snd (ITService_status_counts db) = db"
  "snd (assignee_summary db) = db"
  "snd (slowest_assignee db) = db"
  by (simp_all add: ITService_all_def ITService_total_count_def ITService_open_count_def
      avg_resolution_time_def priority_counts_def ITService_status_counts_def
      assignee_summary_def slowest_assignee_def fetchall_def fetchone_def
      SELECT_it_tickets_ORDER_BY_created_at_DESC_def SELECT_COUNT_it_tickets_def
      SELECT_COUNT_it_tickets_WHERE_status_IN_def SELECT_AVG_resolution_time_hours_def
      SELECT_COUNT_it_tickets_GROUP_BY_def
      SELECT_it_tickets_GROUP_BY_assigned_to_ORDER_BY_ticket_count_def
      SELECT_it_tickets_GROUP_BY_assigned_to_ORDER_BY_avg_res_LIMIT_1_def
      split: option.splits)

text \<open>
  Claim C9. Every aggregate and lookup query of the three services hands back the store
  it was called on: the only statements they run are SELECTs, through \<open>fetchall\<close> and
  \<open>fetchone\<close>, which do not commit.
\<close>

theorem queries_are_read_only:
  "snd (SecurityService_all db) = db
   \<and> snd (SecurityService_total_count db) = db
   \<and> snd (SecurityService_open_count db) = db
   \<and> snd (category_counts db) = db
   \<and> snd (severity_counts db) = db
   \<and> snd (SecurityService_status_counts db) = db
   \<and> snd (DatasetService_all db) = db
   \<and> snd (DatasetService_total_count db) = db
   \<and> snd (total_rows db) = db
   \<and> snd (uploader_summary db) = db
   \<and> snd (ITService_all db) = db
   \<and> snd (ITService_total_count db) = db
   \<and> snd (ITService_open_count db) = db
   \<and> snd (avg_resolution_time round1 db) = db
   \<and> snd (priority_counts db) = db
   \<and> snd (ITService_status_counts db) = db
   \<and> snd (assignee_summary db) = db
   \<and> snd (slowest_assignee db) = db"
  by (simp only: security_queries_store dataset_queries_store ticket_queries_store simp_thms)


theorem queries_are_read_only_witness:
  "snd (slowest_assignee tickets_example_db) = tickets_example_db
   \<and> snd (avg_resolution_time toy_round1 tickets_example_db) = tickets_example_db
   \<and> snd (severity_counts severity_example_db) = severity_example_db
   \<and> snd (total_rows empty_db) = empty_db"
  using queries_are_read_only [of tickets_example_db toy_round1]
    queries_are_read_only [of severity_example_db toy_round1]
    queries_are_read_only [of empty_db toy_round1]
  by blast

subsection \<open>Average resolution time\<close>

lemma avg_resolution_time_eq:
  "avg_resolution_time round1 db =
     (case sql_avg (map t_resolution_time_hours (it_tickets db)) of
        None \<Rightarrow> Inr (IntNum 0)
      | Some avg_res \<Rightarrow> Inr (if avg_res \<noteq> 0 then FloatNum (round1 avg_res) else IntNum 0), db)"
  by (simp add: avg_resolution_time_def fetchone_def SELECT_AVG_resolution_time_hours_def
      split: option.splits)

text \<open>
  Claim C10. \<open>avg_resolution_time\<close> never raises. It returns the int 0 on an empty
  table, and the int 0 when the mean of resolution_time_hours over the rows is zero;
  otherwise it returns the mean rounded to one decimal (the rounding is the parameter
  \<open>round1\<close>; the mean is the exact rational).
\<close>

theorem avg_resolution_time_cases:
  "(\<exists>v. fst (avg_resolution_time round1 db) = Inr v)
   \<and> (it_tickets db = [] \<longrightarrow> fst (avg_resolution_time round1 db) = Inr (IntNum 0))
   \<and> (it_tickets db \<noteq> []
        \<and> rat_of_int (sum_list (map t_resolution_time_hours (it_tickets db)))
            / rat_of_nat (length (it_tickets db)) = 0
        \<longrightarrow> fst (avg_resolution_time round1 db) = Inr (IntNum 0))
   \<and> (it_tickets db \<noteq> []
        \<and> rat_of_int (sum_list (map t_resolution_time_hours (it_tickets db)))
            / rat_of_nat (length (it_tickets db)) \<noteq> 0
        \<longrightarrow> fst (avg_resolution_time round1 db) =
              Inr (FloatNum (round1
                (rat_of_int (sum_list (map t_resolution_time_hours (it_tickets db)))
                   / rat_of_nat (length (it_tickets db))))))"
  by (simp add: avg_resolution_time_eq sql_avg_def)

theorem avg_resolution_time_cases_witness:
  "fst (avg_resolution_time toy_round1 empty_db) = Inr (IntNum 0)
   \<and> fst (avg_resolution_time toy_round1 unresolved_example_db) = Inr (IntNum 0)
   \<and> fst (avg_resolution_time toy_round1 tickets_example_db) = Inr (FloatNum 3)"
proof -
  have 1: "fst (avg_resolution_time toy_round1 empty_db) = Inr (IntNum 0)"
    using avg_resolution_time_cases [of toy_round1 empty_db] by (simp add: empty_db_def)
  have 2: "fst (avg_resolution_time toy_round1 unresolved_example_db) = Inr (IntNum 0)"
    using avg_resolution_time_cases [of toy_round1 unresolved_example_db]
    by (simp add: unresolved_example_db_def empty_db_def)
  have 3: "fst (avg_resolution_time toy_round1 tickets_example_db) = Inr (FloatNum 3)"
    using avg_resolution_time_cases [of toy_round1 tickets_example_db]
    by (simp add: tickets_example_db_def empty_db_def toy_round1_def Let_def)
  from 1 2 3 show ?thesis by blast
qed

subsection \<open>ORDER BY ... DESC\<close>

lemma mset_insert_desc: "mset (insert_desc k x xs) = add_mset x (mset xs)"
  by (induction xs) simp_all

lemma set_insert_desc: "set (insert_desc k x xs) = insert x (set xs)"
  by (induction xs) auto

lemma sorted_insert_desc:
  "sorted_wrt (\<lambda>a b. k b \<le> k a) xs \<Longrightarrow> sorted_wrt (\<lambda>a b. k b \<le> k a) (insert_desc k x xs)"
proof (induction xs)
  case Nil
  show ?case by simp
next
  case (Cons y ys)
  show ?case
  proof (cases "k y \<le> k x")
    case True
    with Cons.prems show ?thesis by (auto intro: order_trans)
  next
    case False
    then have "k x \<le> k y" by simp
    with Cons False show ?thesis by (auto simp: set_insert_desc)
  qed
qed

lemma mset_order_by_desc: "mset (order_by_desc k xs) = mset xs"
  by (induction xs) (simp_all add: order_by_desc_def mset_insert_desc)

lemma sorted_order_by_desc: "sorted_wrt (\<lambda>a b. k b \<le> k a) (order_by_desc k xs)"
  by (induction xs) (simp_all add: order_by_desc_def sorted_insert_desc)

lemma set_order_by_desc: "set (order_by_desc k xs) = set xs"
  using mset_order_by_desc [of k xs] by (metis set_mset_mset)

lemma all_rows:
  "SecurityService_all db = (Inr (order_by_desc i_timestamp (cyber_incidents db)), db)"
  "DatasetService_all db = (Inr (order_by_desc d_upload_date (datasets_metadata db)), db)"
  "ITService_all db = (Inr (order_by_desc t_created_at (it_tickets db)), db)"
  by (simp_all add: SecurityService_all_def DatasetService_all_def ITService_all_def
      fetchall_def SELECT_cyber_incidents_ORDER_BY_timestamp_DESC_def
      SELECT_datasets_metadata_ORDER_BY_upload_date_DESC_def
      SELECT_it_tickets_ORDER_BY_created_at_DESC_def)

lemma sorted_by_reading:
  "(\<And>a b. a \<in> set xs \<Longrightarrow> b \<in> set xs \<Longrightarrow> k a \<le> k b \<Longrightarrow> c (k a) \<le> c (k b))
     \<Longrightarrow> sorted_wrt (\<lambda>a b. c (k b) \<le> c (k a)) (order_by_desc k xs)"
proof -
  assume m: "\<And>a b. a \<in> set xs \<Longrightarrow> b \<in> set xs \<Longrightarrow> k a \<le> k b \<Longrightarrow> c (k a) \<le> c (k b)"
  have "sorted_wrt (\<lambda>a b. k b \<le> k a) (order_by_desc k xs)" by (rule sorted_order_by_desc)
  then show ?thesis
  proof (rule sorted_wrt_mono_rel [rotated])
    fix a b
    assume "a \<in> set (order_by_desc k xs)" "b \<in> set (order_by_desc k xs)" "k b \<le> k a"
    then show "c (k b) \<le> c (k a)" by (simp add: set_order_by_desc m)
  qed
qed

lemma unpadded_rows:
  "cyber_incidents unpadded_example_db =
     [\<lparr>i_id = 1, i_incident_id = 1, i_timestamp = Some ''2024-9-01 10:00:00'',
       i_severity = Some ''High'', i_category = Some ''Phishing'', i_status = Some ''Open'',
       i_description = Some ''a''\<rparr>,
      \<lparr>i_id = 2, i_incident_id = 2, i_timestamp = Some ''2024-10-01 10:00:00'',
       i_severity = Some ''Low'', i_category = Some ''Malware'', i_status = Some ''Open'',
       i_description = Some ''b''\<rparr>]"
  by (simp add: unpadded_example_db_def create_incident_def execute_def
      INSERT_INTO_cyber_incidents_def Let_def empty_db_def next_rowid_def)

lemma calendar_examples:
  "calendar None = None"
  "calendar (Some ''2024-9-01 10:00:00'') = Some [2024, 9, 1, 10, 0, 0]"
  "calendar (Some ''2024-10-01 10:00:00'') = Some [2024, 10, 1, 10, 0, 0]"
  "calendar (Some ''2024-01-15 10:00:00'') = Some [2024, 1, 15, 10, 0, 0]"
  "calendar (Some ''2024-03-02 08:30:00'') = Some [2024, 3, 2, 8, 30, 0]"
  "calendar (Some ''2024-02-20 23:59:59'') = Some [2024, 2, 20, 23, 59, 59]"
  "calendar (Some ''2024-01-16 09:00:00'') = Some [2024, 1, 16, 9, 0, 0]"
  "calendar (Some ''2024-01-14 17:00:00'') = Some [2024, 1, 14, 17, 0, 0]"
  "calendar (Some ''2024-01-15'') = Some [2024, 1, 15]"
  "calendar (Some ''2024-02-01'') = Some [2024, 2, 1]"
  by (simp_all add: calendar_def is_digit_def digit_val_def)

text \<open>
  Claim C6, as the code has it. On every store, \<open>all()\<close> of each service returns the
  rows of its table, each row as often as the table has it, in descending order of the
  sort key as the store compares TEXT values (byte-wise, NULL below every text):
  incidents by timestamp, datasets by upload date, tickets by creation time. That order
  is newest first when the text order of the stored keys agrees with the order of the
  times they denote, as it does for zero-padded keys; the store takes any text as a key.
\<close>

theorem all_is_sorted_descending:
  "(\<exists>rows. SecurityService_all db = (Inr rows, db)
        \<and> mset rows = mset (cyber_incidents db)
        \<and> sorted_wrt (\<lambda>a b. i_timestamp b \<le> i_timestamp a) rows
        \<and> ((\<forall>a \<in> set (cyber_incidents db). \<forall>b \<in> set (cyber_incidents db).
               i_timestamp a \<le> i_timestamp b
               \<longrightarrow> calendar (i_timestamp a) \<le> calendar (i_timestamp b))
             \<longrightarrow> sorted_wrt (\<lambda>a b. calendar (i_timestamp b) \<le> calendar (i_timestamp a))
                   rows))
   \<and> (\<exists>rows. DatasetService_all db = (Inr rows, db)
        \<and> mset rows = mset (datasets_metadata db)
        \<and> sorted_wrt (\<lambda>a b. d_upload_date b \<le> d_upload_date a) rows
        \<and> ((\<forall>a \<in> set (datasets_metadata db). \<forall>b \<in> set (datasets_metadata db).
               d_upload_date a \<le> d_upload_date b
               \<longrightarrow> calendar (d_upload_date a) \<le> calendar (d_upload_date b))
             \<longrightarrow> sorted_wrt (\<lambda>a b. calendar (d_upload_date b) \<le> calendar (d_upload_date a))
                   rows))
   \<and> (\<exists>rows. ITService_all db = (Inr rows, db)
        \<and> mset rows = mset (it_tickets db)
        \<and> sorted_wrt (\<lambda>a b. t_created_at b \<le> t_created_at a) rows
        \<and> ((\<forall>a \<in> set (it_tickets db). \<forall>b \<in> set (it_tickets db).
               t_created_at a \<le> t_created_at b
               \<longrightarrow> calendar (t_created_at a) \<le> calendar (t_created_at b))
             \<longrightarrow> sorted_wrt (\<lambda>a b. calendar (t_created_at b) \<le> calendar (t_created_at a))
                   rows))"
proof (intro conjI)
  show "\<exists>rows. SecurityService_all db = (Inr rows, db)
        \<and> mset rows = mset (cyber_incidents db)
        \<and> sorted_wrt (\<lambda>a b. i_timestamp b \<le> i_timestamp a) rows
        \<and> ((\<forall>a \<in> set (cyber_incidents db). \<forall>b \<in> set (cyber_incidents db).
               i_timestamp a \<le> i_timestamp b
               \<longrightarrow> calendar (i_timestamp a) \<le> calendar (i_timestamp b))
             \<longrightarrow> sorted_wrt (\<lambda>a b. calendar (i_timestamp b) \<le> calendar (i_timestamp a))
                   rows)"
    by (simp add: all_rows mset_order_by_desc sorted_order_by_desc sorted_by_reading)
  show "\<exists>rows. DatasetService_all db = (Inr rows, db)
        \<and> mset rows = mset (datasets_metadata db)
        \<and> sorted_wrt (\<lambda>a b. d_upload_date b \<le> d_upload_date a) rows
        \<and> ((\<forall>a \<in> set (datasets_metadata db). \<forall>b \<in> set (datasets_metadata db).
               d_upload_date a \<le> d_upload_date b
               \<longrightarrow> calendar (d_upload_date a) \<le> calendar (d_upload_date b))
             \<longrightarrow> sorted_wrt (\<lambda>a b. calendar (d_upload_date b) \<le> calendar (d_upload_date a))
                   rows)"
    by (simp add: all_rows mset_order_by_desc sorted_order_by_desc sorted_by_reading)
  show "\<exists>rows. ITService_all db = (Inr rows, db)
        \<and> mset rows = mset (it_tickets db)
        \<and> sorted_wrt (\<lambda>a b. t_created_at b \<le> t_created_at a) rows
        \<and> ((\<forall>a \<in> set (it_tickets db). \<forall>b \<in> set (it_tickets db).
               t_created_at a \<le> t_created_at b
               \<longrightarrow> calendar (t_created_at a) \<le> calendar (t_created_at b))
             \<longrightarrow> sorted_wrt (\<lambda>a b. calendar (t_created_at b) \<le> calendar (t_created_at a))
                   rows)"
    by (simp add: all_rows mset_order_by_desc sorted_order_by_desc sorted_by_reading)
qed

theorem all_is_sorted_descending_witness:
  "map i_id (projr (fst (SecurityService_all severity_example_db))) = [2, 4, 1, 3]
   \<and> sorted_wrt (\<lambda>a b. calendar (i_timestamp b) \<le> calendar (i_timestamp a))
        (projr (fst (SecurityService_all severity_example_db)))
   \<and> map d_id (projr (fst (DatasetService_all datasets_example_db))) = [2, 1, 3]
   \<and> sorted_wrt (\<lambda>a b. calendar (d_upload_date b) \<le> calendar (d_upload_date a))
        (projr (fst (DatasetService_all datasets_example_db)))
   \<and> map t_id (projr (fst (ITService_all tickets_example_db))) = [2, 1, 3]
   \<and> sorted_wrt (\<lambda>a b. calendar (t_created_at b) \<le> calendar (t_created_at a))
        (projr (fst (ITService_all tickets_example_db)))"
proof -
  have hi: "\<forall>a \<in> set (cyber_incidents severity_example_db).
      \<forall>b \<in> set (cyber_incidents severity_example_db).
        i_timestamp a \<le> i_timestamp b \<longrightarrow> calendar (i_timestamp a) \<le> calendar (i_timestamp b)"
    by (simp add: severity_example_db_def empty_db_def calendar_examples)
  have hd: "\<forall>a \<in> set (datasets_metadata datasets_example_db).
      \<forall>b \<in> set (datasets_metadata datasets_example_db).
        d_upload_date a \<le> d_upload_date b
        \<longrightarrow> calendar (d_upload_date a) \<le> calendar (d_upload_date b)"
    by (simp add: datasets_example_db_def empty_db_def calendar_examples)
  have ht: "\<forall>a \<in> set (it_tickets tickets_example_db). \<forall>b \<in> set (it_tickets tickets_example_db).
        t_created_at a \<le> t_created_at b \<longrightarrow> calendar (t_created_at a) \<le> calendar (t_created_at b)"
    by (simp add: tickets_example_db_def empty_db_def calendar_examples)
  from all_is_sorted_descending [of severity_example_db] hi
  obtain rows where r: "SecurityService_all severity_example_db = (Inr rows, severity_example_db)"
    and s: "sorted_wrt (\<lambda>a b. calendar (i_timestamp b) \<le> calendar (i_timestamp a)) rows"
    by blast
  from all_is_sorted_descending [of datasets_example_db] hd
  obtain rows' where r': "DatasetService_all datasets_example_db = (Inr rows', datasets_example_db)"
    and s': "sorted_wrt (\<lambda>a b. calendar (d_upload_date b) \<le> calendar (d_upload_date a)) rows'"
    by blast
  from all_is_sorted_descending [of tickets_example_db] ht
  obtain rows'' where r'': "ITService_all tickets_example_db = (Inr rows'', tickets_example_db)"
    and s'': "sorted_wrt (\<lambda>a b. calendar (t_created_at b) \<le> calendar (t_created_at a)) rows''"
    by blast
  have 1: "map i_id (projr (fst (SecurityService_all severity_example_db))) = [2, 4, 1, 3]"
    by (simp add: all_rows severity_example_db_def empty_db_def order_by_desc_def)
  have 2: "map d_id (projr (fst (DatasetService_all datasets_example_db))) = [2, 1, 3]"
    by (simp add: all_rows datasets_example_db_def empty_db_def order_by_desc_def)
  have 3: "map t_id (projr (fst (ITService_all tickets_example_db))) = [2, 1, 3]"
    by (simp add: all_rows tickets_example_db_def empty_db_def order_by_desc_def)
  from r s have 4: "sorted_wrt (\<lambda>a b. calendar (i_timestamp b) \<le> calendar (i_timestamp a))
        (projr (fst (SecurityService_all severity_example_db)))"
    by simp
  from r' s' have 5: "sorted_wrt (\<lambda>a b. calendar (d_upload_date b) \<le> calendar (d_upload_date a))
        (projr (fst (DatasetService_all datasets_example_db)))"
    by simp
  from r'' s'' have 6: "sorted_wrt (\<lambda>a b. calendar (t_created_at b) \<le> calendar (t_created_at a))
        (projr (fst (ITService_all tickets_example_db)))"
    by simp
  from 1 2 3 4 5 6 show ?thesis by blast
qed

text \<open>
  The claim as stated fails: of two incidents dated 1 September 2024 and 1 October 2024,
  the first with its month written without a leading zero, \<open>all()\<close> returns the one of
  September first, because the text '2024-9-...' is above the text '2024-10-...'.
\<close>

theorem newest_first_counterexample:
  "map i_timestamp (projr (fst (SecurityService_all unpadded_example_db))) =
     [Some ''2024-9-01 10:00:00'', Some ''2024-10-01 10:00:00'']
   \<and> calendar (Some ''2024-9-01 10:00:00'') < calendar (Some ''2024-10-01 10:00:00'')
   \<and> \<not> sorted_wrt (\<lambda>a b. calendar (i_timestamp b) \<le> calendar (i_timestamp a))
         (projr (fst (SecurityService_all unpadded_example_db)))"
  by (simp add: all_rows unpadded_rows order_by_desc_def calendar_examples)

subsection \<open>Grouped counts\<close>

lemma count_where_mset:
  "count_where (\<lambda>r. f r = k) xs = int (count (mset (map f xs)) k)"
  by (induction xs) (simp_all add: count_where_def)

lemma count_where_size:
  "count_where p xs = int (size (filter_mset p (mset xs)))"
  by (simp add: count_where_def flip: mset_filter)

lemma distinct_group_keys: "distinct (group_keys f xs)"
  by (simp add: group_keys_def)

lemma set_group_keys: "set (group_keys f xs) = f ` set xs"
  by (simp add: group_keys_def)

lemma map_of_groups:
  "map_of (map (\<lambda>k. (k, g k)) ks) k = (if k \<in> set ks then Some (g k) else None)"
  by (induction ks) simp_all

lemma severity_counts_eq:
  "severity_counts db =
     (Inr (map (\<lambda>k. (k, count_where (\<lambda>r. i_severity r = k) (cyber_incidents db)))
             (group_keys i_severity (cyber_incidents db))), db)"
  by (simp add: severity_counts_def fetchall_def SELECT_COUNT_cyber_incidents_GROUP_BY_def)

lemma open_count_eq:
  "SecurityService_open_count db =
     (Inr (count_where (\<lambda>r. i_status r = Some ''Open'' \<or> i_status r = Some ''In Progress'')
             (cyber_incidents db)), db)"
  by (simp add: SecurityService_open_count_def fetchone_def
      SELECT_COUNT_cyber_incidents_WHERE_status_IN_def)

text \<open>
  Claim C7. \<open>severity_counts\<close> returns one row per severity present in the table, with
  the number of rows that have it, and no row for any other severity; \<open>open_count\<close>
  returns the number of rows whose status is Open or In Progress. On the two examples:
  severities High, Critical, Low, High give High 2, Critical 1, Low 1, and statuses
  Open, Closed, In Progress give 2.
\<close>

theorem security_aggregates:
  "(\<exists>groups. severity_counts db = (Inr groups, db)
        \<and> distinct (map fst groups)
        \<and> (\<forall>s. map_of groups s =
              (if s \<in> i_severity ` set (cyber_incidents db)
               then Some (int (count (mset (map i_severity (cyber_incidents db))) s))
               else None)))
   \<and> SecurityService_open_count db =
       (Inr (int (size (filter_mset
               (\<lambda>r. i_status r = Some ''Open'' \<or> i_status r = Some ''In Progress'')
               (mset (cyber_incidents db))))), db)
   \<and> fst (severity_counts severity_example_db) =
       Inr [(Some ''Critical'', 1), (Some ''High'', 2), (Some ''Low'', 1)]
   \<and> fst (SecurityService_open_count status_example_db) = Inr 2"
proof (intro conjI)
  let ?groups = "map (\<lambda>k. (k, count_where (\<lambda>r. i_severity r = k) (cyber_incidents db)))
             (group_keys i_severity (cyber_incidents db))"
  have d: "distinct (map fst ?groups)"
    by (simp add: comp_def distinct_group_keys)
  have m: "\<forall>s. map_of ?groups s =
              (if s \<in> i_severity ` set (cyber_incidents db)
               then Some (int (count (mset (map i_severity (cyber_incidents db))) s))
               else None)"
    by (simp add: map_of_groups set_group_keys count_where_mset)
  from d m show "\<exists>groups. severity_counts db = (Inr groups, db)
        \<and> distinct (map fst groups)
        \<and> (\<forall>s. map_of groups s =
              (if s \<in> i_severity ` set (cyber_incidents db)
               then Some (int (count (mset (map i_severity (cyber_incidents db))) s))
               else None))"
    unfolding severity_counts_eq by blast
next
  show "SecurityService_open_count db =
       (Inr (int (size (filter_mset
               (\<lambda>r. i_status r = Some ''Open'' \<or> i_status r = Some ''In Progress'')
               (mset (cyber_incidents db))))), db)"
    by (simp add: open_count_eq count_where_size)
next
  show "fst (severity_counts severity_example_db) =
       Inr [(Some ''Critical'', 1), (Some ''High'', 2), (Some ''Low'', 1)]"
    by (simp add: severity_counts_eq severity_example_db_def empty_db_def group_keys_def
        count_where_def)
next
  show "fst (SecurityService_open_count status_example_db) = Inr 2"
    by (simp add: open_count_eq status_example_db_def empty_db_def count_where_def)
qed


theorem security_aggregates_witness:
  "map_of (projr (fst (severity_counts severity_example_db))) (Some ''High'') = Some 2
   \<and> map_of (projr (fst (severity_counts severity_example_db))) (Some ''Critical'') = Some 1
   \<and> map_of (projr (fst (severity_counts severity_example_db))) (Some ''Low'') = Some 1
   \<and> map_of (projr (fst (severity_counts severity_example_db))) (Some ''Medium'') = None
   \<and> fst (SecurityService_open_count status_example_db) = Inr 2"
proof -
  from security_aggregates [of severity_example_db]
  obtain groups where g: "severity_counts severity_example_db = (Inr groups, severity_example_db)"
    and m: "\<And>s. map_of groups s =
              (if s \<in> i_severity ` set (cyber_incidents severity_example_db)
               then Some (int (count (mset (map i_severity
                       (cyber_incidents severity_example_db))) s))
               else None)"
    by blast
  have p: "projr (fst (severity_counts severity_example_db)) = groups"
    by (simp add: g)
  have 1: "map_of groups (Some ''High'') = Some 2"
    by (simp add: m severity_example_db_def empty_db_def)
  have 2: "map_of groups (Some ''Critical'') = Some 1"
    by (simp add: m severity_example_db_def empty_db_def)
  have 3: "map_of groups (Some ''Low'') = Some 1"
    by (simp add: m severity_example_db_def empty_db_def)
  have 4: "map_of groups (Some ''Medium'') = None"
    by (simp add: m severity_example_db_def empty_db_def)
  have 5: "fst (SecurityService_open_count status_example_db) = Inr 2"
    using security_aggregates [of status_example_db]
    by (simp add: status_example_db_def empty_db_def)
  from 1 2 3 4 5 show ?thesis unfolding p by blast
qed

subsection \<open>UPDATE and DELETE by primary key\<close>






subsection \<open>Incidents: create, update, delete\<close>






subsection \<open>Data sets: create, update, delete\<close>






subsection \<open>Tickets: create, update, delete\<close>








subsection \<open>Bulk import\<close>




















subsection \<open>The primary key stays a key\<close>

text \<open>
  The ids of a table are distinct in the empty store, and every statement that writes to
  a table keeps them so: INSERT takes an id above all ids of the table, UPDATE leaves the
  ids as they are, and DELETE removes rows.
\<close>

lemma next_rowid_above: "next_rowid seq (map f xs) \<notin> f ` set xs"
  using next_rowid_fresh [of seq "map f xs"] by simp

lemma update_keeps_ids:
  "(\<And>r. f (g r) = f r) \<Longrightarrow> f \<circ> (\<lambda>r. if f r = a then g r else r) = f"
  by (auto simp: fun_eq_iff)

lemma incident_ids_distinct:
  "distinct (map i_id (cyber_incidents empty_db))"
  "distinct (map i_id (cyber_incidents db))
     \<Longrightarrow> distinct (map i_id (cyber_incidents
           (snd (INSERT_INTO_cyber_incidents n ts sev cat st descr db))))"
  "distinct (map i_id (cyber_incidents db))
     \<Longrightarrow> distinct (map i_id (cyber_incidents
           (snd (UPDATE_cyber_incidents n ts sev cat st descr rowid db))))"
  "distinct (map i_id (cyber_incidents db))
     \<Longrightarrow> distinct (map i_id (cyber_incidents (snd (DELETE_FROM_cyber_incidents rowid db))))"
  by (simp_all add: empty_db_def INSERT_INTO_cyber_incidents_def UPDATE_cyber_incidents_def
      DELETE_FROM_cyber_incidents_def Let_def next_rowid_above update_keeps_ids
      distinct_map_filter)

lemma dataset_ids_distinct:
  "distinct (map d_id (datasets_metadata empty_db))"
  "distinct (map d_id (datasets_metadata db))
     \<Longrightarrow> distinct (map d_id (datasets_metadata
           (snd (INSERT_INTO_datasets_metadata n name m k who date db))))"
  "distinct (map d_id (datasets_metadata db))
     \<Longrightarrow> distinct (map d_id (datasets_metadata
           (snd (UPDATE_datasets_metadata n name m k who date rowid db))))"
  "distinct (map d_id (datasets_metadata db))
     \<Longrightarrow> distinct (map d_id (datasets_metadata (snd (DELETE_FROM_datasets_metadata rowid db))))"
  by (simp_all add: empty_db_def INSERT_INTO_datasets_metadata_def UPDATE_datasets_metadata_def
      DELETE_FROM_datasets_metadata_def Let_def next_rowid_above update_keeps_ids
      distinct_map_filter)

lemma ticket_ids_distinct:
  "distinct (map t_id (it_tickets empty_db))"
  "distinct (map t_id (it_tickets db))
     \<Longrightarrow> distinct (map t_id (it_tickets
           (snd (INSERT_INTO_it_tickets n pr descr st who created m db))))"
  "distinct (map t_id (it_tickets db))
     \<Longrightarrow> distinct (map t_id (it_tickets
           (snd (UPDATE_it_tickets n pr descr st who created m rowid db))))"
  "distinct (map t_id (it_tickets db))
     \<Longrightarrow> distinct (map t_id (it_tickets (snd (DELETE_FROM_it_tickets rowid db))))"
  by (simp_all add: empty_db_def INSERT_INTO_it_tickets_def UPDATE_it_tickets_def
      DELETE_FROM_it_tickets_def Let_def next_rowid_above update_keeps_ids
      distinct_map_filter)

end
